theory Spec2Isabelle
  imports Complex_Main "HOL-Library.Monad_Syntax"
begin

section \<open>Gradient volume: data model\<close>

text \<open>
  The development follows \<^verbatim>\<open>src/volume/gradient_volume.cpp\<close>.

  A \<^verbatim>\<open>float\<close> is a real number, and every arithmetic operation of the source on
  \<^verbatim>\<open>float\<close>s whose result is stored, returned or converted to an index is rounded to
  binary32 (round to nearest, ties to even, 24 significant bits, subnormal numbers below
  \<open>2^-126\<close>), one rounding for each operation and no fused multiply-add. There is no NaN,
  no infinity and no overflow to infinity. Three things are kept exact:
  \<^verbatim>\<open>glm::length\<close>, whose rounding moves a magnitude and nothing else; the two range guards
  of the queries with the conversion of the dimensions, where rounding the sums
  \<open>coord - 1\<close> and \<open>coord + 1\<close> can only make a guard hold more often; \<^verbatim>\<open>floor\<close> and
  \<^verbatim>\<open>ceil\<close>, which are exact in binary32.

  An \<^verbatim>\<open>int\<close> has 32 bits. The overflow of a signed multiplication is undefined behaviour
  in the source and an error value here, like the other undefined behaviours that the code
  can reach: a read outside \<^verbatim>\<open>m_data\<close> and the dereference of a past-the-end iterator.
\<close>

datatype vec3 = Vec3 (vx: real) (vy: real) (vz: real)

datatype vec2 = Vec2 (ux: real) (uy: real)

datatype ivec3 = IVec3 (ix: int) (iy: int) (iz: int)

record GradientVoxel =
  dir :: vec3
  magnitude :: real

text \<open>
  Modelled from the spec: the enumeration \<^verbatim>\<open>InterpolationMode\<close> is declared in a header
  that is not under src/; its three values are the cases of the \<^verbatim>\<open>switch\<close> in
  \<^verbatim>\<open>getGradientInterpolate\<close>.
\<close>

datatype InterpolationMode = NearestNeighbour | Linear | Cubic

text \<open>
  Modelled from the spec: class \<^verbatim>\<open>Volume\<close> is not under src/. The gradient code reads
  only \<^verbatim>\<open>dims()\<close> and \<^verbatim>\<open>getVoxel(x, y, z)\<close>, so a volume is its dimensions and its
  scalar sample accessor.
\<close>

record Volume =
  dims :: ivec3
  getVoxel :: "int \<Rightarrow> int \<Rightarrow> int \<Rightarrow> real"

record GradientVolume =
  m_dim :: ivec3
  m_data :: "GradientVoxel list"
  m_minMagnitude :: real
  m_maxMagnitude :: real
  interpolationMode :: InterpolationMode

datatype error =
  SignedOverflow \<comment> \<open>undefined behaviour: an \<^verbatim>\<open>int\<close> product outside 32 bits\<close>
  | LengthError \<comment> \<open>\<^verbatim>\<open>std::vector\<close> asked for a size converted from a negative \<^verbatim>\<open>int\<close>\<close>
  | EndIteratorDereferenced \<comment> \<open>undefined behaviour: \<^verbatim>\<open>end(data)->magnitude\<close>\<close>

subsection \<open>Arithmetic of the machine\<close>

text \<open>Rounding to binary32. \<open>round_half_even\<close> is the nearest integer, the even one of
  two nearest; \<open>binary32 x\<close> is the nearest multiple of the unit in the last place of \<open>x\<close>,
  which is \<open>2^(e - 23)\<close> for \<open>2^e \<le> |x| < 2^(e + 1)\<close> and never less than \<open>2^-149\<close>.\<close>

definition round_half_even :: "real \<Rightarrow> int" where
  "round_half_even r =
     (let n = \<lfloor>r\<rfloor>; d = r - of_int n
      in if d < 1 / 2 then n else if 1 / 2 < d then n + 1 else if even n then n else n + 1)"

definition binary32 :: "real \<Rightarrow> real" where
  "binary32 x =
     (if x = 0 then 0
      else let e = \<lfloor>log 2 \<bar>x\<bar>\<rfloor>; ulp = 2 powi (max (e - 23) (- 149))
           in of_int (round_half_even (x / ulp)) * ulp)"

definition fadd :: "real \<Rightarrow> real \<Rightarrow> real" where
  "fadd a b = binary32 (a + b)"

definition fsub :: "real \<Rightarrow> real \<Rightarrow> real" where
  "fsub a b = binary32 (a - b)"

definition fmul :: "real \<Rightarrow> real \<Rightarrow> real" where
  "fmul a b = binary32 (a * b)"

definition fdiv :: "real \<Rightarrow> real \<Rightarrow> real" where
  "fdiv a b = binary32 (a / b)"

text \<open>The values of \<^verbatim>\<open>int\<close>, and the multiplication of two of them. On a two's-complement
  target the overflowing product wraps modulo \<open>2^32\<close> (\<open>65536 * 65536\<close> becomes 0); the
  model does not follow an execution past the overflow.\<close>

definition int32 :: "int \<Rightarrow> bool" where
  "int32 i \<longleftrightarrow> - (2 ^ 31) \<le> i \<and> i < 2 ^ 31"

definition mul_int :: "int \<Rightarrow> int \<Rightarrow> error + int" where
  "mul_int a b = (if int32 (a * b) then Inr (a * b) else Inl SignedOverflow)"

subsection \<open>The operations of glm that the source uses\<close>

definition vec3_sub :: "vec3 \<Rightarrow> vec3 \<Rightarrow> vec3" where
  "vec3_sub a b = Vec3 (fsub (vx a) (vx b)) (fsub (vy a) (vy b)) (fsub (vz a) (vz b))"

definition vec3_add :: "vec3 \<Rightarrow> vec3 \<Rightarrow> vec3" where
  "vec3_add a b = Vec3 (fadd (vx a) (vx b)) (fadd (vy a) (vy b)) (fadd (vz a) (vz b))"

definition vec3_scale :: "vec3 \<Rightarrow> real \<Rightarrow> vec3" where
  "vec3_scale a s = Vec3 (fmul (vx a) s) (fmul (vy a) s) (fmul (vz a) s)"

text \<open>The sums of the range guards and the conversion of the dimensions, kept exact.\<close>

definition vec3_add_scalar :: "vec3 \<Rightarrow> real \<Rightarrow> vec3" where
  "vec3_add_scalar a s = Vec3 (vx a + s) (vy a + s) (vz a + s)"

definition vec3_sub_scalar :: "vec3 \<Rightarrow> real \<Rightarrow> vec3" where
  "vec3_sub_scalar a s = Vec3 (vx a - s) (vy a - s) (vz a - s)"

definition vec3_of_ivec3 :: "ivec3 \<Rightarrow> vec3" where
  "vec3_of_ivec3 d = Vec3 (of_int (ix d)) (of_int (iy d)) (of_int (iz d))"

definition glm_length :: "vec3 \<Rightarrow> real" where
  "glm_length v = sqrt (vx v * vx v + vy v * vy v + vz v * vz v)"

definition any_lessThan :: "vec3 \<Rightarrow> vec3 \<Rightarrow> bool" where
  "any_lessThan a b \<longleftrightarrow> vx a < vx b \<or> vy a < vy b \<or> vz a < vz b"

definition any_greaterThanEqual :: "vec3 \<Rightarrow> vec3 \<Rightarrow> bool" where
  "any_greaterThanEqual a b \<longleftrightarrow> vx a \<ge> vx b \<or> vy a \<ge> vy b \<or> vz a \<ge> vz b"

definition zero_vec3 :: vec3 where
  "zero_vec3 = Vec3 0 0 0"

text \<open>The value \<^verbatim>\<open>{ glm::vec3(0.0f), 0.0f }\<close>, which is also the value-initialised
  element of \<^verbatim>\<open>std::vector<GradientVoxel>(n)\<close>.\<close>

definition zero_voxel :: GradientVoxel where
  "zero_voxel = \<lparr>dir = zero_vec3, magnitude = 0\<rparr>"

text \<open>Conversion of a \<^verbatim>\<open>float\<close> to \<^verbatim>\<open>int\<close> discards the fractional part
  (truncation towards zero).\<close>

definition float_to_int :: "real \<Rightarrow> int" where
  "float_to_int f = (if 0 \<le> f then \<lfloor>f\<rfloor> else \<lceil>f\<rceil>)"

definition floor_f :: "real \<Rightarrow> real" where
  "floor_f f = of_int \<lfloor>f\<rfloor>"

definition ceil_f :: "real \<Rightarrow> real" where
  "ceil_f f = of_int \<lceil>f\<rceil>"

section \<open>Construction\<close>

subsection \<open>The extrema scans\<close>

text \<open>\<^verbatim>\<open>std::max_element(first, last, comp)\<close> keeps the first element that no later
  element exceeds, and returns \<^verbatim>\<open>last\<close> on an empty range; \<^verbatim>\<open>std::min_element\<close>
  likewise keeps the first smallest one. \<open>None\<close> is the past-the-end iterator.\<close>

fun max_element_from :: "GradientVoxel \<Rightarrow> GradientVoxel list \<Rightarrow> GradientVoxel" where
  "max_element_from largest [] = largest"
| "max_element_from largest (g # gs) =
     (if magnitude largest < magnitude g then max_element_from g gs
      else max_element_from largest gs)"

fun min_element_from :: "GradientVoxel \<Rightarrow> GradientVoxel list \<Rightarrow> GradientVoxel" where
  "min_element_from smallest [] = smallest"
| "min_element_from smallest (g # gs) =
     (if magnitude g < magnitude smallest then min_element_from g gs
      else min_element_from smallest gs)"

definition max_element :: "GradientVoxel list \<Rightarrow> GradientVoxel option" where
  "max_element data = (case data of [] \<Rightarrow> None | g # gs \<Rightarrow> Some (max_element_from g gs))"

definition min_element :: "GradientVoxel list \<Rightarrow> GradientVoxel option" where
  "min_element data = (case data of [] \<Rightarrow> None | g # gs \<Rightarrow> Some (min_element_from g gs))"

definition computeMaxMagnitude :: "GradientVoxel list \<Rightarrow> error + real" where
  "computeMaxMagnitude data =
     (case max_element data of
        None \<Rightarrow> Inl EndIteratorDereferenced
      | Some g \<Rightarrow> Inr (magnitude g))"

definition computeMinMagnitude :: "GradientVoxel list \<Rightarrow> error + real" where
  "computeMinMagnitude data =
     (case min_element data of
        None \<Rightarrow> Inl EndIteratorDereferenced
      | Some g \<Rightarrow> Inr (magnitude g))"

subsection \<open>The gradient array\<close>

text \<open>The row-major index \<^verbatim>\<open>x + dim.x * (y + dim.y * z)\<close>.\<close>

definition voxel_index :: "ivec3 \<Rightarrow> int \<Rightarrow> int \<Rightarrow> int \<Rightarrow> int" where
  "voxel_index d x y z = x + ix d * (y + iy d * z)"

text \<open>The body of the innermost loop: the central differences and their length.\<close>

definition central_difference :: "Volume \<Rightarrow> int \<Rightarrow> int \<Rightarrow> int \<Rightarrow> GradientVoxel" where
  "central_difference volume x y z =
     (let gx = fdiv (fsub (getVoxel volume (x + 1) y z) (getVoxel volume (x - 1) y z)) 2;
          gy = fdiv (fsub (getVoxel volume x (y + 1) z) (getVoxel volume x (y - 1) z)) 2;
          gz = fdiv (fsub (getVoxel volume x y (z + 1)) (getVoxel volume x y (z - 1))) 2;
          v = Vec3 gx gy gz
      in \<lparr>dir = v, magnitude = glm_length v\<rparr>)"

function loop_x :: "Volume \<Rightarrow> int \<Rightarrow> int \<Rightarrow> int \<Rightarrow> GradientVoxel list \<Rightarrow> GradientVoxel list" where
  "loop_x volume z y x out =
     (if x < ix (dims volume) - 1
      then loop_x volume z y (x + 1)
             (out[nat (voxel_index (dims volume) x y z) := central_difference volume x y z])
      else out)"
  by pat_completeness auto
termination
  by (relation "measure (\<lambda>(volume, z, y, x, out). nat (ix (dims volume) - 1 - x))") auto

function loop_y :: "Volume \<Rightarrow> int \<Rightarrow> int \<Rightarrow> GradientVoxel list \<Rightarrow> GradientVoxel list" where
  "loop_y volume z y out =
     (if y < iy (dims volume) - 1
      then loop_y volume z (y + 1) (loop_x volume z y 1 out)
      else out)"
  by pat_completeness auto
termination
  by (relation "measure (\<lambda>(volume, z, y, out). nat (iy (dims volume) - 1 - y))") auto

function loop_z :: "Volume \<Rightarrow> int \<Rightarrow> GradientVoxel list \<Rightarrow> GradientVoxel list" where
  "loop_z volume z out =
     (if z < iz (dims volume) - 1
      then loop_z volume (z + 1) (loop_y volume z 1 out)
      else out)"
  by pat_completeness auto
termination
  by (relation "measure (\<lambda>(volume, z, out). nat (iz (dims volume) - 1 - z))") auto

declare loop_x.simps [simp del] loop_y.simps [simp del] loop_z.simps [simp del]

text \<open>The count \<^verbatim>\<open>dim.x * dim.y * dim.z\<close> is two \<^verbatim>\<open>int\<close> multiplications.
  \<^verbatim>\<open>static_cast<size_t>\<close> of a negative count is at least \<open>2^64 - 2^31\<close>, more than
  \<^verbatim>\<open>max_size()\<close> of the vector, whose constructor then throws. Where the loops write, the
  count is the product of three dimensions of at least 3 and below \<open>2^31\<close>, and the index of
  an interior voxel is computed without overflow and lies inside the vector (lemmas
  \<open>voxel_index_no_overflow\<close> and \<open>nat_voxel_index_less\<close>).\<close>

definition computeGradientVolume :: "Volume \<Rightarrow> error + GradientVoxel list" where
  "computeGradientVolume volume =
     (let dim = dims volume
      in case mul_int (ix dim) (iy dim) of
           Inl e \<Rightarrow> Inl e
         | Inr xy \<Rightarrow>
             (case mul_int xy (iz dim) of
                Inl e \<Rightarrow> Inl e
              | Inr n \<Rightarrow>
                  if n < 0 then Inl LengthError
                  else Inr (loop_z volume 1 (replicate (nat n) zero_voxel))))"

text \<open>The constructor. The member \<^verbatim>\<open>interpolationMode\<close> gets its initial value from the
  class declaration, which is not under src/: it is a parameter here.\<close>

definition GradientVolume_ctor :: "InterpolationMode \<Rightarrow> Volume \<Rightarrow> error + GradientVolume" where
  "GradientVolume_ctor mode volume =
     (case computeGradientVolume volume of
        Inl e \<Rightarrow> Inl e
      | Inr data \<Rightarrow>
          (case computeMinMagnitude data of
             Inl e \<Rightarrow> Inl e
           | Inr lo \<Rightarrow>
               (case computeMaxMagnitude data of
                  Inl e \<Rightarrow> Inl e
                | Inr hi \<Rightarrow>
                    Inr \<lparr>m_dim = dims volume, m_data = data, m_minMagnitude = lo,
                         m_maxMagnitude = hi, interpolationMode = mode\<rparr>)))"

definition maxMagnitude :: "GradientVolume \<Rightarrow> real" where
  "maxMagnitude gv = m_maxMagnitude gv"

definition minMagnitude :: "GradientVolume \<Rightarrow> real" where
  "minMagnitude gv = m_minMagnitude gv"

section \<open>Queries\<close>

text \<open>\<^verbatim>\<open>getGradient\<close> reads \<^verbatim>\<open>m_data[i]\<close> unchecked, with \<open>i\<close> the index converted to
  \<^verbatim>\<open>size_t\<close>; a negative index becomes a huge one. \<open>None\<close> is undefined behaviour: an
  intermediate value of the index outside 32 bits, or the read outside the array.\<close>

definition index_fits :: "ivec3 \<Rightarrow> int \<Rightarrow> int \<Rightarrow> int \<Rightarrow> bool" where
  "index_fits d x y z \<longleftrightarrow>
     int32 (iy d * z) \<and> int32 (y + iy d * z) \<and> int32 (ix d * (y + iy d * z))
     \<and> int32 (x + ix d * (y + iy d * z))"

definition getGradient :: "GradientVolume \<Rightarrow> int \<Rightarrow> int \<Rightarrow> int \<Rightarrow> GradientVoxel option" where
  "getGradient gv x y z =
     (let i = voxel_index (m_dim gv) x y z
      in if index_fits (m_dim gv) x y z \<and> 0 \<le> i \<and> i < int (length (m_data gv))
         then Some (m_data gv ! nat i) else None)"

definition linearInterpolate :: "GradientVoxel \<Rightarrow> GradientVoxel \<Rightarrow> real \<Rightarrow> GradientVoxel" where
  "linearInterpolate g0 g1 factor =
     (let result = vec3_add (vec3_scale (vec3_sub (dir g1) (dir g0)) factor) (dir g0)
      in \<lparr>dir = result, magnitude = glm_length result\<rparr>)"

definition biLinearInterpolation :: "GradientVolume \<Rightarrow> vec2 \<Rightarrow> int \<Rightarrow> GradientVoxel option" where
  "biLinearInterpolation gv xyCoord z =
     (let bottomLeft_x = float_to_int (floor_f (ux xyCoord));
          bottomLeft_y = float_to_int (floor_f (uy xyCoord));
          topLeft_x = float_to_int (floor_f (ux xyCoord));
          topLeft_y = float_to_int (ceil_f (uy xyCoord));
          bottomRight_x = float_to_int (ceil_f (ux xyCoord));
          bottomRight_y = float_to_int (floor_f (uy xyCoord));
          topRight_x = float_to_int (ceil_f (ux xyCoord));
          topRight_y = float_to_int (ceil_f (uy xyCoord));
          a = fsub (ux xyCoord) (of_int bottomLeft_x);
          b = fsub (uy xyCoord) (of_int bottomLeft_y)
      in do {
           g00 \<leftarrow> getGradient gv bottomLeft_x bottomLeft_y z;
           g01 \<leftarrow> getGradient gv bottomRight_x bottomRight_y z;
           let c00 = linearInterpolate g00 g01 a;
           g10 \<leftarrow> getGradient gv topLeft_x topLeft_y z;
           g11 \<leftarrow> getGradient gv topRight_x topRight_y z;
           let c10 = linearInterpolate g10 g11 a;
           Some (linearInterpolate c00 c10 b)
         })"

definition getGradientLinearInterpolate :: "GradientVolume \<Rightarrow> vec3 \<Rightarrow> GradientVoxel option" where
  "getGradientLinearInterpolate gv coord =
     (if any_lessThan (vec3_sub_scalar coord 1) zero_vec3
         \<or> any_greaterThanEqual (vec3_add_scalar coord 1) (vec3_of_ivec3 (m_dim gv))
      then Some zero_voxel
      else do {
        b0 \<leftarrow> biLinearInterpolation gv (Vec2 (vx coord) (vy coord)) (float_to_int (floor_f (vz coord)));
        b1 \<leftarrow> biLinearInterpolation gv (Vec2 (vx coord) (vy coord)) (float_to_int (ceil_f (vz coord)));
        let f = fsub (vz coord) (floor_f (vz coord));
        Some (linearInterpolate b0 b1 f)
      })"

definition roundToPositiveInt :: "real \<Rightarrow> int" where
  "roundToPositiveInt f = float_to_int (fadd f 0.5)"

definition getGradientNearestNeighbor :: "GradientVolume \<Rightarrow> vec3 \<Rightarrow> GradientVoxel option" where
  "getGradientNearestNeighbor gv coord =
     (if any_lessThan coord zero_vec3 \<or> any_greaterThanEqual coord (vec3_of_ivec3 (m_dim gv))
      then Some zero_voxel
      else getGradient gv (roundToPositiveInt (vx coord)) (roundToPositiveInt (vy coord))
             (roundToPositiveInt (vz coord)))"

definition getGradientInterpolate :: "GradientVolume \<Rightarrow> vec3 \<Rightarrow> GradientVoxel option" where
  "getGradientInterpolate gv coord =
     (case interpolationMode gv of
        NearestNeighbour \<Rightarrow> getGradientNearestNeighbor gv coord
      | Linear \<Rightarrow> getGradientLinearInterpolate gv coord
      | Cubic \<Rightarrow> getGradientLinearInterpolate gv coord)"

section \<open>Predicates of the specification and a sample volume\<close>

definition in_volume :: "ivec3 \<Rightarrow> int \<Rightarrow> int \<Rightarrow> int \<Rightarrow> bool" where
  "in_volume d x y z \<longleftrightarrow> 0 \<le> x \<and> x < ix d \<and> 0 \<le> y \<and> y < iy d \<and> 0 \<le> z \<and> z < iz d"

definition consistent :: "GradientVoxel \<Rightarrow> bool" where
  "consistent g \<longleftrightarrow> magnitude g = glm_length (dir g)"

definition is_binary32 :: "real \<Rightarrow> bool" where
  "is_binary32 x \<longleftrightarrow> binary32 x = x"

definition stored :: "GradientVoxel \<Rightarrow> bool" where
  "stored g \<longleftrightarrow>
     consistent g \<and> is_binary32 (vx (dir g)) \<and> is_binary32 (vy (dir g)) \<and> is_binary32 (vz (dir g))"

definition example_volume :: Volume where
  "example_volume = \<lparr>dims = IVec3 3 3 3, getVoxel = (\<lambda>x y z. of_int x)\<rparr>"

definition example_data :: "GradientVoxel list" where
  "example_data =
     replicate 13 zero_voxel @ [\<lparr>dir = Vec3 1 0 0, magnitude = 1\<rparr>] @ replicate 13 zero_voxel"

definition outside_margin :: "GradientVolume \<Rightarrow> vec3 \<Rightarrow> bool" where
  "outside_margin gv coord \<longleftrightarrow>
     vx coord - 1 < 0 \<or> vy coord - 1 < 0 \<or> vz coord - 1 < 0
     \<or> of_int (ix (m_dim gv)) \<le> vx coord + 1 \<or> of_int (iy (m_dim gv)) \<le> vy coord + 1
     \<or> of_int (iz (m_dim gv)) \<le> vz coord + 1"

definition out_of_range :: "GradientVolume \<Rightarrow> vec3 \<Rightarrow> bool" where
  "out_of_range gv coord \<longleftrightarrow>
     vx coord < 0 \<or> vy coord < 0 \<or> vz coord < 0
     \<or> of_int (ix (m_dim gv)) \<le> vx coord \<or> of_int (iy (m_dim gv)) \<le> vy coord
     \<or> of_int (iz (m_dim gv)) \<le> vz coord"

definition example_gv :: "InterpolationMode \<Rightarrow> GradientVolume" where
  "example_gv mode = \<lparr>m_dim = IVec3 3 3 3, m_data = example_data, m_minMagnitude = 0,
          m_maxMagnitude = 1, interpolationMode = mode\<rparr>"

section \<open>Auxiliary facts\<close>

subsection \<open>Rounding to binary32\<close>

lemma round_half_even_of_int [simp]: "round_half_even (of_int n) = n"
  by (simp add: round_half_even_def)

lemma round_half_even_range: "\<lfloor>r\<rfloor> \<le> round_half_even r \<and> round_half_even r \<le> \<lfloor>r\<rfloor> + 1"
  by (simp add: round_half_even_def Let_def)

lemma round_half_even_abs_le:
  assumes "\<bar>r\<bar> < of_int N"
  shows "\<bar>round_half_even r\<bar> \<le> N"
proof -
  have "r < of_int N" "- of_int N < r" using assms by auto
  then have "\<lfloor>r\<rfloor> < N" "- N \<le> \<lfloor>r\<rfloor>" by (simp_all add: floor_less_iff le_floor_iff)
  then show ?thesis using round_half_even_range [of r] by linarith
qed

lemma binary32_zero [simp]: "binary32 0 = 0"
  by (simp add: binary32_def)

lemma powr2_powi: "2 powr real_of_int k = 2 powi k"
  by (simp add: powr_real_of_int')

lemma floor_log2_bounds:
  assumes "x \<noteq> 0"
  shows "2 powi \<lfloor>log 2 \<bar>x\<bar>\<rfloor> \<le> \<bar>x\<bar>" and "\<bar>x\<bar> < 2 powi (\<lfloor>log 2 \<bar>x\<bar>\<rfloor> + 1)"
proof -
  have "0 < \<bar>x\<bar>" using assms by simp
  then have "2 powr real_of_int \<lfloor>log 2 \<bar>x\<bar>\<rfloor> \<le> \<bar>x\<bar> \<and> \<bar>x\<bar> < 2 powr real_of_int (\<lfloor>log 2 \<bar>x\<bar>\<rfloor> + 1)"
    using floor_log_eq_powr_iff [of "\<bar>x\<bar>" 2 "\<lfloor>log 2 \<bar>x\<bar>\<rfloor>"] by (simp del: of_int_add)
  then show "2 powi \<lfloor>log 2 \<bar>x\<bar>\<rfloor> \<le> \<bar>x\<bar>" and "\<bar>x\<bar> < 2 powi (\<lfloor>log 2 \<bar>x\<bar>\<rfloor> + 1)"
    unfolding powr2_powi by simp_all
qed

lemma floor_log2_eq:
  assumes "2 powi e \<le> \<bar>x\<bar>" "\<bar>x\<bar> < 2 powi (e + 1)"
  shows "\<lfloor>log 2 \<bar>x\<bar>\<rfloor> = e"
proof -
  have "(0::real) < 2 powi e" by simp
  then have "0 < \<bar>x\<bar>" using assms(1) by linarith
  then show ?thesis
    using floor_log_eq_powr_iff [of "\<bar>x\<bar>" 2 e, unfolded powr2_powi] assms by simp
qed

lemma binary32_eval:
  assumes "2 powi e \<le> \<bar>x\<bar>" "\<bar>x\<bar> < 2 powi (e + 1)" "- 126 \<le> e"
  shows "binary32 x = of_int (round_half_even (x / 2 powi (e - 23))) * 2 powi (e - 23)"
proof -
  have "(0::real) < 2 powi e" by simp
  then have "0 < \<bar>x\<bar>" using assms(1) by linarith
  then have "x \<noteq> 0" by simp
  moreover have "max (e - 23) (- 149) = e - 23" using assms(3) by simp
  ultimately show ?thesis
    using floor_log2_eq [OF assms(1,2)] by (simp add: binary32_def Let_def)
qed

lemma powi_mono2: "a \<le> b \<Longrightarrow> (2::real) powi a \<le> 2 powi b"
  by (rule power_int_increasing) auto

lemma binary32_exact:
  assumes "\<bar>m\<bar> < 2 ^ 24" "- 149 \<le> k"
  shows "binary32 (of_int m * 2 powi k) = of_int m * 2 powi k"
proof (cases "m = 0")
  case True
  then show ?thesis by simp
next
  case False
  define x :: real where "x = of_int m * 2 powi k"
  define e where "e = \<lfloor>log 2 \<bar>x\<bar>\<rfloor>"
  define u where "u = max (e - 23) (- 149)"
  have x0: "x \<noteq> 0" using False by (simp add: x_def)
  have "\<bar>x\<bar> = of_int \<bar>m\<bar> * 2 powi k" by (simp add: x_def abs_mult)
  also have "\<dots> < of_int (2 ^ 24) * 2 powi k"
    using assms(1) by (intro mult_strict_right_mono) (simp_all only: of_int_less_iff zero_less_power_int zero_less_numeral)
  also have "\<dots> = 2 powi (24 + k)" by (simp add: power_int_add)
  finally have up: "\<bar>x\<bar> < 2 powi (24 + k)" .
  have "2 powi e \<le> \<bar>x\<bar>" unfolding e_def using floor_log2_bounds(1) [OF x0] .
  then have lt: "(2::real) powi e < 2 powi (24 + k)" using up by linarith
  have "e < 24 + k"
  proof (rule ccontr)
    assume "\<not> e < 24 + k"
    then have "(2::real) powi (24 + k) \<le> 2 powi e" by (intro power_int_increasing) auto
    with lt show False by simp
  qed
  then have uk: "u \<le> k" using assms(2) by (simp add: u_def)
  define j where "j = m * 2 ^ nat (k - u)"
  have "(2::real) powi (k - u) = of_int (2 ^ nat (k - u))"
    using uk by (simp add: power_int_def)
  moreover have "(2::real) powi k = 2 powi (k - u) * 2 powi u"
    by (simp add: power_int_add [symmetric])
  ultimately have xj: "x = of_int j * 2 powi u"
    by (simp add: x_def j_def)
  have "x / 2 powi u = of_int j" by (simp add: xj)
  then have "round_half_even (x / 2 powi u) = j" by (simp only: round_half_even_of_int)
  then have "binary32 x = of_int j * 2 powi u"
    using x0 by (simp add: binary32_def Let_def e_def [symmetric] u_def [symmetric])
  then show ?thesis using xj by (simp add: x_def)
qed

lemma abs_eq_2_24:
  fixes n :: int
  assumes "\<bar>n\<bar> = 2 ^ 24"
  shows "n = 2 * (n div 2)" and "\<bar>n div 2\<bar> < 2 ^ 24"
proof -
  have "n = 16777216 \<or> n = - 16777216" using assms by (simp add: abs_if split: if_splits)
  then show "n = 2 * (n div 2)" and "\<bar>n div 2\<bar> < 2 ^ 24" by auto
qed

lemma binary32_representable:
  "\<exists>m k. binary32 x = of_int m * 2 powi k \<and> \<bar>m\<bar> < 2 ^ 24 \<and> - 149 \<le> k"
proof (cases "x = 0")
  case True
  then have "binary32 x = of_int 0 * 2 powi 0" by simp
  then show ?thesis by (intro exI [of _ 0] exI [of _ "0::int"]) simp
next
  case False
  define e where "e = \<lfloor>log 2 \<bar>x\<bar>\<rfloor>"
  define u where "u = max (e - 23) (- 149)"
  define n where "n = round_half_even (x / 2 powi u)"
  have fl: "binary32 x = of_int n * 2 powi u"
    using False by (simp add: binary32_def Let_def e_def [symmetric] u_def [symmetric] n_def)
  have u149: "- 149 \<le> u" by (simp add: u_def)
  have "\<bar>x\<bar> < 2 powi (e + 1)" unfolding e_def using floor_log2_bounds(2) [OF False] .
  also have "(2::real) powi (e + 1) \<le> 2 powi (24 + u)"
    by (intro power_int_increasing) (simp_all add: u_def)
  also have "\<dots> = 2 ^ 24 * 2 powi u" by (simp add: power_int_add)
  finally have "\<bar>x\<bar> / 2 powi u < 2 ^ 24" by (simp add: field_simps)
  then have "\<bar>x / 2 powi u\<bar> < of_int (2 ^ 24)" by (simp add: abs_divide)
  then have n: "\<bar>n\<bar> \<le> 2 ^ 24" unfolding n_def by (rule round_half_even_abs_le)
  show ?thesis
  proof (cases "\<bar>n\<bar> < 2 ^ 24")
    case True
    then show ?thesis using fl u149 by (intro exI [of _ n] exI [of _ u]) simp
  next
    case False
    then have eq: "\<bar>n\<bar> = 2 ^ 24" using n by simp
    have "n = 2 * (n div 2)" using abs_eq_2_24(1) [OF eq] .
    then have "real_of_int n = 2 * of_int (n div 2)"
      by (metis of_int_mult of_int_numeral)
    moreover have "(2::real) powi (u + 1) = 2 * 2 powi u" by (simp add: power_int_add)
    ultimately have "of_int n * (2::real) powi u = of_int (n div 2) * 2 powi (u + 1)"
      by simp
    moreover have "\<bar>n div 2\<bar> < 2 ^ 24" using abs_eq_2_24(2) [OF eq] .
    ultimately show ?thesis
      using fl u149 by (intro exI [of _ "n div 2"] exI [of _ "u + 1"]) simp
  qed
qed

lemma binary32_idem [simp]: "binary32 (binary32 x) = binary32 x"
proof -
  obtain m k where "binary32 x = of_int m * 2 powi k" "\<bar>m\<bar> < 2 ^ 24" "- 149 \<le> k"
    using binary32_representable by blast
  then show ?thesis by (simp add: binary32_exact)
qed

lemma binary32_of_int: "\<bar>m\<bar> < 2 ^ 24 \<Longrightarrow> binary32 (of_int m) = of_int m"
  using binary32_exact [of m 0] by simp

lemma binary32_one [simp]: "binary32 1 = 1"
  using binary32_of_int [of 1] by simp

lemma binary32_numeral [simp]:
  "(numeral n :: int) < 2 ^ 24 \<Longrightarrow> binary32 (numeral n) = numeral n"
  using binary32_of_int [of "numeral n"] by simp

lemma is_binary32_binary32 [simp]: "is_binary32 (binary32 x)"
  by (simp add: is_binary32_def)

lemma is_binary32_zero [simp]: "is_binary32 0"
  by (simp add: is_binary32_def)

subsection \<open>The index and the loops\<close>

lemma voxel_index_bounds:
  assumes "0 \<le> x" "x < ix d" "0 \<le> y" "y < iy d" "0 \<le> z" "z < iz d"
  shows "0 \<le> voxel_index d x y z" and "voxel_index d x y z < ix d * iy d * iz d"
proof -
  have yz0: "0 \<le> y + iy d * z" using assms by simp
  have "iy d * z \<le> iy d * (iz d - 1)" using assms by (intro mult_left_mono) auto
  then have yz: "y + iy d * z \<le> iy d * iz d - 1" using assms by (simp add: algebra_simps)
  show "0 \<le> voxel_index d x y z" using assms yz0 by (simp add: voxel_index_def)
  have "ix d * (y + iy d * z) \<le> ix d * (iy d * iz d - 1)"
    using assms yz by (intro mult_left_mono) auto
  then show "voxel_index d x y z < ix d * iy d * iz d"
    using assms by (simp add: voxel_index_def algebra_simps)
qed


lemma length_loop_x: "length (loop_x volume z y x out) = length out"
proof (induction volume z y x out rule: loop_x.induct)
  case (1 volume z y x out)
  show ?case by (subst loop_x.simps) (simp add: 1)
qed

lemma length_loop_y: "length (loop_y volume z y out) = length out"
proof (induction volume z y out rule: loop_y.induct)
  case (1 volume z y out)
  show ?case by (subst loop_y.simps) (simp add: 1 length_loop_x)
qed

lemma length_loop_z: "length (loop_z volume z out) = length out"
proof (induction volume z out rule: loop_z.induct)
  case (1 volume z out)
  show ?case by (subst loop_z.simps) (simp add: 1 length_loop_y)
qed


lemma nat_voxel_index_less:
  assumes "in_volume d x y z" "length out = nat (ix d * iy d * iz d)"
  shows "nat (voxel_index d x y z) < length out"
  using assms voxel_index_bounds [of x d y z] by (simp add: in_volume_def)

text \<open>Where the voxel count fits a 32-bit \<^verbatim>\<open>int\<close>, so does every intermediate value of
  the index of a coordinate of the volume.\<close>

lemma voxel_index_no_overflow:
  assumes "in_volume d x y z" "ix d * iy d * iz d < 2 ^ 31"
  shows "0 \<le> iy d * z \<and> iy d * z < 2 ^ 31"
    and "0 \<le> y + iy d * z \<and> y + iy d * z < 2 ^ 31"
    and "0 \<le> ix d * (y + iy d * z) \<and> ix d * (y + iy d * z) < 2 ^ 31"
    and "0 \<le> voxel_index d x y z \<and> voxel_index d x y z < 2 ^ 31"
proof -
  have r: "0 \<le> x" "x < ix d" "0 \<le> y" "y < iy d" "0 \<le> z" "z < iz d"
    using assms(1) by (simp_all add: in_volume_def)
  have top: "voxel_index d x y z < 2 ^ 31"
    using voxel_index_bounds(2) [OF r] assms(2) by simp
  have a: "0 \<le> iy d * z" using r by simp
  have b: "iy d * z \<le> y + iy d * z" using r by simp
  have "1 * (y + iy d * z) \<le> ix d * (y + iy d * z)"
    using r a by (intro mult_right_mono) auto
  then have c: "y + iy d * z \<le> ix d * (y + iy d * z)" by simp
  have e: "ix d * (y + iy d * z) \<le> voxel_index d x y z"
    using r by (simp add: voxel_index_def)
  show "0 \<le> iy d * z \<and> iy d * z < 2 ^ 31" using a b c e top by linarith
  show "0 \<le> y + iy d * z \<and> y + iy d * z < 2 ^ 31" using a b c e top r by linarith
  show "0 \<le> ix d * (y + iy d * z) \<and> ix d * (y + iy d * z) < 2 ^ 31"
    using a b c e top r by linarith
  show "0 \<le> voxel_index d x y z \<and> voxel_index d x y z < 2 ^ 31"
    using a b c e top r by linarith
qed

lemma index_fits_in_volume:
  assumes "in_volume d x y z" "ix d * iy d * iz d < 2 ^ 31"
  shows "index_fits d x y z"
  using voxel_index_no_overflow [OF assms] by (simp add: index_fits_def int32_def voxel_index_def)






lemma consistent_zero_voxel: "consistent zero_voxel"
  by (simp add: consistent_def zero_voxel_def zero_vec3_def glm_length_def)

lemma consistent_central_difference: "consistent (central_difference volume x y z)"
  by (simp add: consistent_def central_difference_def Let_def)

lemma consistent_linearInterpolate: "consistent (linearInterpolate g0 g1 t)"
  by (simp add: consistent_def linearInterpolate_def Let_def)

lemma stored_zero_voxel: "stored zero_voxel"
  unfolding stored_def using consistent_zero_voxel by (simp add: zero_voxel_def zero_vec3_def)

lemma stored_central_difference: "stored (central_difference volume x y z)"
  by (simp add: stored_def consistent_central_difference)
    (simp add: central_difference_def Let_def fdiv_def)

lemma stored_consistent: "stored g \<Longrightarrow> consistent g"
  by (simp add: stored_def)

lemma list_all_update: "list_all P xs \<Longrightarrow> P v \<Longrightarrow> list_all P (xs[i := v])"
  using set_update_subset_insert [of xs i v] by (auto simp: list_all_iff)

lemma loop_x_all:
  "list_all stored out \<Longrightarrow> list_all stored (loop_x volume z y x out)"
proof (induction volume z y x out rule: loop_x.induct)
  case (1 volume z y x out)
  show ?case
    by (subst loop_x.simps) (simp add: 1 list_all_update stored_central_difference)
qed

lemma loop_y_all:
  "list_all stored out \<Longrightarrow> list_all stored (loop_y volume z y out)"
proof (induction volume z y out rule: loop_y.induct)
  case (1 volume z y out)
  show ?case by (subst loop_y.simps) (simp add: 1 loop_x_all)
qed

lemma loop_z_all:
  "list_all stored out \<Longrightarrow> list_all stored (loop_z volume z out)"
proof (induction volume z out rule: loop_z.induct)
  case (1 volume z out)
  show ?case by (subst loop_z.simps) (simp add: 1 loop_y_all)
qed

lemma computeGradientVolume_Inr:
  assumes "computeGradientVolume volume = Inr out"
  shows "0 \<le> ix (dims volume) * iy (dims volume) * iz (dims volume)"
    and "ix (dims volume) * iy (dims volume) * iz (dims volume) < 2 ^ 31"
    and "out = loop_z volume 1
           (replicate (nat (ix (dims volume) * iy (dims volume) * iz (dims volume))) zero_voxel)"
  using assms
  by (auto simp: computeGradientVolume_def Let_def mul_int_def int32_def
      split: if_splits sum.splits)

lemma computeGradientVolume_stored:
  assumes "computeGradientVolume volume = Inr out"
  shows "list_all stored out"
proof -
  let ?n = "nat (ix (dims volume) * iy (dims volume) * iz (dims volume))"
  have "list_all stored (replicate ?n zero_voxel)"
    by (simp add: list_all_iff stored_zero_voxel)
  then show ?thesis unfolding computeGradientVolume_Inr(3) [OF assms] by (rule loop_z_all)
qed

lemma computeGradientVolume_length:
  assumes "computeGradientVolume volume = Inr out"
  shows "length out = nat (ix (dims volume) * iy (dims volume) * iz (dims volume))"
  unfolding computeGradientVolume_Inr(3) [OF assms] by (simp add: length_loop_z)


lemma computeGradientVolume_total:
  assumes "1 \<le> ix (dims volume)" "1 \<le> iy (dims volume)" "1 \<le> iz (dims volume)"
    and "ix (dims volume) * iy (dims volume) * iz (dims volume) < 2 ^ 31"
  shows "\<exists>out. computeGradientVolume volume = Inr out"
proof -
  have "0 < ix (dims volume) * iy (dims volume)" using assms(1,2) by simp
  moreover have "ix (dims volume) * iy (dims volume) * 1
      \<le> ix (dims volume) * iy (dims volume) * iz (dims volume)"
    using assms(1-3) by (intro mult_left_mono) auto
  ultimately have "int32 (ix (dims volume) * iy (dims volume))"
    using assms(4) by (simp add: int32_def)
  moreover have pos: "0 \<le> ix (dims volume) * iy (dims volume) * iz (dims volume)"
    using assms(1-3) by simp
  moreover have "int32 (ix (dims volume) * iy (dims volume) * iz (dims volume))"
    using assms(4) pos by (simp add: int32_def)
  ultimately show ?thesis by (simp add: computeGradientVolume_def Let_def mul_int_def)
qed

lemma max_element_from_ge:
  "magnitude l \<le> magnitude (max_element_from l gs) \<and>
   (\<forall>g \<in> set gs. magnitude g \<le> magnitude (max_element_from l gs))"
proof (induction gs arbitrary: l)
  case Nil
  show ?case by simp
next
  case (Cons a gs)
  show ?case
  proof (cases "magnitude l < magnitude a")
    case True
    then show ?thesis using Cons.IH [of a] by auto
  next
    case False
    then show ?thesis using Cons.IH [of l] by auto
  qed
qed

lemma max_element_from_mem: "max_element_from l gs \<in> set (l # gs)"
  by (induction gs arbitrary: l) auto

lemma min_element_from_le:
  "magnitude (min_element_from l gs) \<le> magnitude l \<and>
   (\<forall>g \<in> set gs. magnitude (min_element_from l gs) \<le> magnitude g)"
proof (induction gs arbitrary: l)
  case Nil
  show ?case by simp
next
  case (Cons a gs)
  show ?case
  proof (cases "magnitude a < magnitude l")
    case True
    then show ?thesis using Cons.IH [of a] by auto
  next
    case False
    then show ?thesis using Cons.IH [of l] by auto
  qed
qed

lemma min_element_from_mem: "min_element_from l gs \<in> set (l # gs)"
  by (induction gs arbitrary: l) auto

lemma example_loops:
  "loop_z example_volume 1 (replicate 27 zero_voxel) = example_data"
  apply (simp add: loop_z.simps loop_y.simps loop_x.simps example_volume_def voxel_index_def
      central_difference_def glm_length_def example_data_def fsub_def fdiv_def)
  apply (simp add: numeral_eq_Suc)
  done

lemma example_computeGradientVolume: "computeGradientVolume example_volume = Inr example_data"
  using example_loops
  by (simp add: computeGradientVolume_def example_volume_def mul_int_def int32_def)

lemma example_ctor:
  "GradientVolume_ctor mode example_volume =
     Inr \<lparr>m_dim = IVec3 3 3 3, m_data = example_data, m_minMagnitude = 0,
          m_maxMagnitude = 1, interpolationMode = mode\<rparr>"
  apply (simp add: GradientVolume_ctor_def example_computeGradientVolume)
  apply (simp add: computeMinMagnitude_def computeMaxMagnitude_def min_element_def max_element_def
      example_data_def numeral_eq_Suc zero_voxel_def example_volume_def)
  done

lemma float_to_int_floor_f [simp]: "float_to_int (floor_f f) = \<lfloor>f\<rfloor>"
  by (simp add: float_to_int_def floor_f_def)

lemma float_to_int_ceil_f [simp]: "float_to_int (ceil_f f) = \<lceil>f\<rceil>"
  by (simp add: float_to_int_def ceil_f_def)

lemma ctor_fields:
  assumes "GradientVolume_ctor mode volume = Inr gv"
  shows "computeGradientVolume volume = Inr (m_data gv)"
    and "m_dim gv = dims volume"
    and "computeMinMagnitude (m_data gv) = Inr (m_minMagnitude gv)"
    and "computeMaxMagnitude (m_data gv) = Inr (m_maxMagnitude gv)"
    and "interpolationMode gv = mode"
  using assms by (auto simp: GradientVolume_ctor_def split: sum.splits)

lemma scans_total:
  assumes "data \<noteq> []"
  shows "\<exists>lo hi. computeMinMagnitude data = Inr lo \<and> computeMaxMagnitude data = Inr hi"
  using assms
  by (cases data)
    (simp_all add: computeMinMagnitude_def computeMaxMagnitude_def min_element_def max_element_def)

lemma computeMinMagnitude_defined: "(\<exists>lo. computeMinMagnitude data = Inr lo) \<longleftrightarrow> data \<noteq> []"
  by (cases data) (simp_all add: computeMinMagnitude_def min_element_def)

lemma computeMaxMagnitude_defined: "(\<exists>hi. computeMaxMagnitude data = Inr hi) \<longleftrightarrow> data \<noteq> []"
  by (cases data) (simp_all add: computeMaxMagnitude_def max_element_def)

lemma ctor_total:
  assumes "1 \<le> ix (dims volume)" "1 \<le> iy (dims volume)" "1 \<le> iz (dims volume)"
    and "ix (dims volume) * iy (dims volume) * iz (dims volume) < 2 ^ 31"
  shows "\<exists>gv. GradientVolume_ctor mode volume = Inr gv"
proof -
  obtain out where out: "computeGradientVolume volume = Inr out"
    using computeGradientVolume_total [OF assms] by blast
  have "0 < ix (dims volume) * iy (dims volume) * iz (dims volume)" using assms(1-3) by simp
  then have "out \<noteq> []" using computeGradientVolume_length [OF out] by auto
  then obtain lo hi where "computeMinMagnitude out = Inr lo" "computeMaxMagnitude out = Inr hi"
    using scans_total by blast
  with out show ?thesis by (simp add: GradientVolume_ctor_def)
qed

lemma computeMaxMagnitude_bounds:
  assumes "computeMaxMagnitude data = Inr hi"
  shows "(\<forall>g \<in> set data. magnitude g \<le> hi) \<and> (\<exists>g \<in> set data. magnitude g = hi)"
proof (cases data)
  case Nil
  with assms show ?thesis by (simp add: computeMaxMagnitude_def max_element_def)
next
  case (Cons l gs)
  then have hi: "hi = magnitude (max_element_from l gs)"
    using assms by (simp add: computeMaxMagnitude_def max_element_def)
  show ?thesis
    unfolding hi Cons using max_element_from_ge [of l gs] max_element_from_mem [of l gs]
    by (metis set_ConsD)
qed

lemma computeMinMagnitude_bounds:
  assumes "computeMinMagnitude data = Inr lo"
  shows "(\<forall>g \<in> set data. lo \<le> magnitude g) \<and> (\<exists>g \<in> set data. magnitude g = lo)"
proof (cases data)
  case Nil
  with assms show ?thesis by (simp add: computeMinMagnitude_def min_element_def)
next
  case (Cons l gs)
  then have lo: "lo = magnitude (min_element_from l gs)"
    using assms by (simp add: computeMinMagnitude_def min_element_def)
  show ?thesis
    unfolding lo Cons using min_element_from_le [of l gs] min_element_from_mem [of l gs]
    by (metis set_ConsD)
qed

lemma margin_guard:
  "any_lessThan (vec3_sub_scalar coord 1) zero_vec3
     \<or> any_greaterThanEqual (vec3_add_scalar coord 1) (vec3_of_ivec3 (m_dim gv))
   \<longleftrightarrow> outside_margin gv coord"
  by (simp add: any_lessThan_def any_greaterThanEqual_def vec3_add_scalar_def
      vec3_sub_scalar_def zero_vec3_def
      vec3_of_ivec3_def outside_margin_def)

lemma range_guard:
  "any_lessThan coord zero_vec3 \<or> any_greaterThanEqual coord (vec3_of_ivec3 (m_dim gv))
   \<longleftrightarrow> out_of_range gv coord"
  by (simp add: any_lessThan_def any_greaterThanEqual_def zero_vec3_def
      vec3_of_ivec3_def out_of_range_def)

lemma getGradient_in_volume:
  assumes "GradientVolume_ctor mode volume = Inr gv" "in_volume (m_dim gv) x y z"
  shows "getGradient gv x y z = Some (m_data gv ! nat (voxel_index (m_dim gv) x y z))"
    and "nat (voxel_index (m_dim gv) x y z) < length (m_data gv)"
proof -
  note f = ctor_fields [OF assms(1)]
  have len: "length (m_data gv) = nat (ix (m_dim gv) * iy (m_dim gv) * iz (m_dim gv))"
    using computeGradientVolume_length [OF f(1)] f(2) by simp
  have small: "ix (m_dim gv) * iy (m_dim gv) * iz (m_dim gv) < 2 ^ 31"
    using computeGradientVolume_Inr(2) [OF f(1)] f(2) by simp
  show lt: "nat (voxel_index (m_dim gv) x y z) < length (m_data gv)"
    using nat_voxel_index_less [OF assms(2) len] .
  have "0 \<le> voxel_index (m_dim gv) x y z"
    using assms(2) by (simp add: in_volume_def voxel_index_bounds)
  with lt show "getGradient gv x y z = Some (m_data gv ! nat (voxel_index (m_dim gv) x y z))"
    using index_fits_in_volume [OF assms(2) small] by (simp add: getGradient_def Let_def)
qed

lemma ctor_stored:
  assumes "GradientVolume_ctor mode volume = Inr gv"
  shows "list_all stored (m_data gv)"
  using computeGradientVolume_stored ctor_fields(1) [OF assms] by blast

lemma ctor_consistent:
  assumes "GradientVolume_ctor mode volume = Inr gv"
  shows "list_all consistent (m_data gv)"
  using ctor_stored [OF assms] by (auto simp: list_all_iff stored_consistent)

lemma getGradient_list_all:
  assumes "list_all P (m_data gv)" "getGradient gv x y z = Some g"
  shows "P g"
  using assms by (auto simp: getGradient_def Let_def list_all_iff split: if_splits)





lemma margin_corners:
  assumes "\<not> outside_margin gv coord"
    and "x = \<lfloor>vx coord\<rfloor> \<or> x = \<lceil>vx coord\<rceil>"
    and "y = \<lfloor>vy coord\<rfloor> \<or> y = \<lceil>vy coord\<rceil>"
    and "z = \<lfloor>vz coord\<rfloor> \<or> z = \<lceil>vz coord\<rceil>"
  shows "in_volume (m_dim gv) x y z"
proof -
  have axis: "0 \<le> k \<and> k < d"
    if "\<not> c - 1 < 0" "\<not> of_int d \<le> c + 1" "k = \<lfloor>c\<rfloor> \<or> k = \<lceil>c\<rceil>" for c :: real and d k :: int
  proof -
    have "1 \<le> \<lfloor>c\<rfloor>" using that(1) by (simp add: le_floor_iff)
    moreover have "\<lfloor>c\<rfloor> \<le> \<lceil>c\<rceil>" by (rule floor_le_ceiling)
    moreover have "c \<le> of_int (d - 1)" using that(2) by simp
    then have "\<lceil>c\<rceil> \<le> d - 1" by (rule ceiling_le)
    ultimately show ?thesis using that(3) by arith
  qed
  show ?thesis
    using assms axis [of "vx coord" "ix (m_dim gv)" x] axis [of "vy coord" "iy (m_dim gv)" y]
      axis [of "vz coord" "iz (m_dim gv)" z]
    by (simp add: outside_margin_def in_volume_def)
qed

lemma float_to_int_of_int [simp]: "float_to_int (of_int k) = k"
  by (simp add: float_to_int_def)

lemma binary32_tie_to_even_up: "binary32 (1 - 1 / 2 ^ 25) = 1"
proof -
  have r: "round_half_even (33554431 / 2) = 16777216"
    by (simp add: round_half_even_def Let_def)
  have "binary32 (1 - 1 / 2 ^ 25) =
      of_int (round_half_even ((1 - 1 / 2 ^ 25) / 2 powi (- 1 - 23))) * 2 powi (- 1 - 23)"
    by (rule binary32_eval) (simp_all add: power_int_minus)
  also have "(1 - 1 / 2 ^ 25) / 2 powi (- 1 - 23) = (33554431 / 2 :: real)"
    by (simp add: power_int_minus field_simps)
  finally show ?thesis by (simp add: r power_int_minus)
qed

lemma binary32_tie_to_even_down: "binary32 (1 / 1024 - 65535 / 2) = - (65535 / 2)"
proof -
  have r: "round_half_even (- (33553919 / 2)) = - 16776960"
    by (simp add: round_half_even_def Let_def)
  have "binary32 (1 / 1024 - 65535 / 2) =
      of_int (round_half_even ((1 / 1024 - 65535 / 2) / 2 powi (14 - 23))) * 2 powi (14 - 23)"
    by (rule binary32_eval) (simp_all add: power_int_minus)
  also have "(1 / 1024 - 65535 / 2) / 2 powi (14 - 23) = (- (33553919 / 2) :: real)"
    by (simp add: power_int_minus field_simps)
  finally show ?thesis by (simp add: r power_int_minus)
qed

lemma binary32_halves:
  "binary32 (65535 / 2) = 65535 / 2" "binary32 (- (65535 / 2)) = - (65535 / 2)"
  "binary32 (1 / 1024) = 1 / 1024" "binary32 (3 / 2) = 3 / 2" "binary32 (1 / 2) = 1 / 2"
  using binary32_exact [of 65535 "- 1"] binary32_exact [of "- 65535" "- 1"]
    binary32_exact [of 1 "- 10"] binary32_exact [of 3 "- 1"] binary32_exact [of 1 "- 1"]
  by (simp_all add: power_int_minus)

lemma glm_length_x: "glm_length (Vec3 a 0 0) = \<bar>a\<bar>"
  by (simp add: glm_length_def)

lemma nearest_neighbour_in_range:
  "\<not> out_of_range gv (Vec3 a b c) \<Longrightarrow>
     getGradientNearestNeighbor gv (Vec3 a b c) =
       getGradient gv (roundToPositiveInt a) (roundToPositiveInt b) (roundToPositiveInt c)"
  by (simp add: getGradientNearestNeighbor_def any_lessThan_def any_greaterThanEqual_def
      zero_vec3_def vec3_of_ivec3_def out_of_range_def)

lemma example_gv_sel [simp]:
  "interpolationMode (example_gv m) = m" "m_dim (example_gv m) = IVec3 3 3 3"
  "m_data (example_gv m) = example_data"
  by (simp_all add: example_gv_def)

lemma example_getGradient:
  "getGradient (example_gv m) 1 1 1 = Some \<lparr>dir = Vec3 1 0 0, magnitude = 1\<rparr>"
  "getGradient (example_gv m) 0 1 1 = Some \<lparr>dir = Vec3 0 0 0, magnitude = 0\<rparr>"
  by (simp_all add: getGradient_def voxel_index_def index_fits_def int32_def
      example_data_def numeral_eq_Suc zero_voxel_def zero_vec3_def)

lemma example_ctor_gv: "GradientVolume_ctor mode example_volume = Inr (example_gv mode)"
  by (simp add: example_ctor example_gv_def)

lemma example_gv_mode: "example_gv mode\<lparr>interpolationMode := m\<rparr> = example_gv m"
  by (simp add: example_gv_def)

lemma getGradient_mode [simp]:
  "getGradient (gv\<lparr>interpolationMode := m\<rparr>) x y z = getGradient gv x y z"
  by (simp add: getGradient_def Let_def)

lemma biLinearInterpolation_mode [simp]:
  "biLinearInterpolation (gv\<lparr>interpolationMode := m\<rparr>) xy z = biLinearInterpolation gv xy z"
  by (simp add: biLinearInterpolation_def)

lemma getGradientLinearInterpolate_mode [simp]:
  "getGradientLinearInterpolate (gv\<lparr>interpolationMode := m\<rparr>) coord =
     getGradientLinearInterpolate gv coord"
  by (simp add: getGradientLinearInterpolate_def)

lemma getGradientNearestNeighbor_mode [simp]:
  "getGradientNearestNeighbor (gv\<lparr>interpolationMode := m\<rparr>) coord =
     getGradientNearestNeighbor gv coord"
  by (simp add: getGradientNearestNeighbor_def)

lemma getGradientLinearInterpolate_outside:
  "outside_margin gv coord \<Longrightarrow> getGradientLinearInterpolate gv coord = Some zero_voxel"
  by (simp add: getGradientLinearInterpolate_def margin_guard)

lemma biLinearInterpolation_inside:
  assumes "GradientVolume_ctor mode volume = Inr gv"
    and "in_volume (m_dim gv) \<lfloor>ux xy\<rfloor> \<lfloor>uy xy\<rfloor> z" "in_volume (m_dim gv) \<lceil>ux xy\<rceil> \<lfloor>uy xy\<rfloor> z"
    and "in_volume (m_dim gv) \<lfloor>ux xy\<rfloor> \<lceil>uy xy\<rceil> z" "in_volume (m_dim gv) \<lceil>ux xy\<rceil> \<lceil>uy xy\<rceil> z"
  shows "biLinearInterpolation gv xy z =
     Some (linearInterpolate
       (linearInterpolate (m_data gv ! nat (voxel_index (m_dim gv) \<lfloor>ux xy\<rfloor> \<lfloor>uy xy\<rfloor> z))
          (m_data gv ! nat (voxel_index (m_dim gv) \<lceil>ux xy\<rceil> \<lfloor>uy xy\<rfloor> z)) (fsub (ux xy) (of_int \<lfloor>ux xy\<rfloor>)))
       (linearInterpolate (m_data gv ! nat (voxel_index (m_dim gv) \<lfloor>ux xy\<rfloor> \<lceil>uy xy\<rceil> z))
          (m_data gv ! nat (voxel_index (m_dim gv) \<lceil>ux xy\<rceil> \<lceil>uy xy\<rceil> z)) (fsub (ux xy) (of_int \<lfloor>ux xy\<rfloor>)))
       (fsub (uy xy) (of_int \<lfloor>uy xy\<rfloor>)))"
  by (simp add: biLinearInterpolation_def Let_def
      getGradient_in_volume(1) [OF assms(1) assms(2)] getGradient_in_volume(1) [OF assms(1) assms(3)]
      getGradient_in_volume(1) [OF assms(1) assms(4)] getGradient_in_volume(1) [OF assms(1) assms(5)])

lemma getGradientLinearInterpolate_inside:
  assumes "GradientVolume_ctor mode volume = Inr gv" "\<not> outside_margin gv coord"
  shows "\<exists>b0 b1. biLinearInterpolation gv (Vec2 (vx coord) (vy coord)) \<lfloor>vz coord\<rfloor> = Some b0
     \<and> biLinearInterpolation gv (Vec2 (vx coord) (vy coord)) \<lceil>vz coord\<rceil> = Some b1
     \<and> getGradientLinearInterpolate gv coord =
         Some (linearInterpolate b0 b1 (fsub (vz coord) (of_int \<lfloor>vz coord\<rfloor>)))"
proof -
  have c: "in_volume (m_dim gv) x y z"
    if "x = \<lfloor>vx coord\<rfloor> \<or> x = \<lceil>vx coord\<rceil>" "y = \<lfloor>vy coord\<rfloor> \<or> y = \<lceil>vy coord\<rceil>"
       "z = \<lfloor>vz coord\<rfloor> \<or> z = \<lceil>vz coord\<rceil>" for x y z
    using margin_corners [OF assms(2) that] .
  have "\<exists>b0. biLinearInterpolation gv (Vec2 (vx coord) (vy coord)) \<lfloor>vz coord\<rfloor> = Some b0"
    using biLinearInterpolation_inside [OF assms(1), of "Vec2 (vx coord) (vy coord)" "\<lfloor>vz coord\<rfloor>"] c
    by simp
  moreover have "\<exists>b1. biLinearInterpolation gv (Vec2 (vx coord) (vy coord)) \<lceil>vz coord\<rceil> = Some b1"
    using biLinearInterpolation_inside [OF assms(1), of "Vec2 (vx coord) (vy coord)" "\<lceil>vz coord\<rceil>"] c
    by simp
  ultimately show ?thesis
    using assms(2) by (auto simp: getGradientLinearInterpolate_def margin_guard floor_f_def)
qed

lemma out_of_range_mode [simp]:
  "out_of_range (gv\<lparr>interpolationMode := m\<rparr>) coord = out_of_range gv coord"
  by (simp add: out_of_range_def)

lemma outside_margin_mode [simp]:
  "outside_margin (gv\<lparr>interpolationMode := m\<rparr>) coord = outside_margin gv coord"
  by (simp add: outside_margin_def)

lemma getGradientNearestNeighbor_cases:
  "getGradientNearestNeighbor gv coord =
     (if out_of_range gv coord then Some zero_voxel
      else getGradient gv (roundToPositiveInt (vx coord)) (roundToPositiveInt (vy coord))
             (roundToPositiveInt (vz coord)))"
  unfolding getGradientNearestNeighbor_def range_guard ..

text \<open>The row-major index does not tell a coordinate \<open>dim.x\<close> on the x axis from the
  start of the next row.\<close>

lemma voxel_index_next_row: "voxel_index d (ix d) y z = voxel_index d 0 (y + 1) z"
  by (simp add: voxel_index_def algebra_simps)

text \<open>Every voxel that a query returns without undefined behaviour has the norm of its
  direction as magnitude.\<close>

lemma returned_voxel_consistent:
  assumes "GradientVolume_ctor mode volume = Inr gv"
    and "getGradientInterpolate (gv\<lparr>interpolationMode := m\<rparr>) coord = Some g"
  shows "magnitude g = sqrt ((vx (dir g))\<^sup>2 + (vy (dir g))\<^sup>2 + (vz (dir g))\<^sup>2)"
proof -
  note stored = ctor_consistent [OF assms(1)]
  have nn: "consistent g" if "getGradientNearestNeighbor gv coord = Some g"
    using that consistent_zero_voxel getGradient_list_all [OF stored]
    by (auto simp: getGradientNearestNeighbor_cases split: if_splits)
  have lin: "consistent g" if q: "getGradientLinearInterpolate gv coord = Some g"
  proof (cases "outside_margin gv coord")
    case True
    then show ?thesis
      using q consistent_zero_voxel by (simp add: getGradientLinearInterpolate_outside)
  next
    case False
    then show ?thesis
      using getGradientLinearInterpolate_inside [OF assms(1) False] q
      by (auto simp: consistent_linearInterpolate)
  qed
  have "consistent g"
    using assms(2) nn lin by (cases m) (simp_all add: getGradientInterpolate_def)
  then show ?thesis by (simp add: consistent_def glm_length_def power2_eq_square)
qed

section \<open>The claims\<close>




text \<open>
  Claim C2 says that \<^verbatim>\<open>linearInterpolate(g0, g1, 1)\<close> is \<open>g1\<close>. The source computes
  \<^verbatim>\<open>(g1.dir - g0.dir) * factor + g0.dir\<close> in binary32, where the difference is rounded
  before \<open>g0.dir\<close> is added back. For \<open>g0\<close> with direction \<open>(32767.5, 0, 0)\<close> and \<open>g1\<close> with
  direction \<open>(2^-10, 0, 0)\<close>, each with the norm of its direction as magnitude, the
  difference \<open>2^-10 - 32767.5\<close> lies halfway between two binary32 numbers and is rounded to
  \<open>- 32767.5\<close>, so that the result at factor 1 is the zero voxel and not \<open>g1\<close>.
\<close>

theorem linearInterpolate_at_one_is_not_g1:
  "stored \<lparr>dir = Vec3 (65535 / 2) 0 0, magnitude = 65535 / 2\<rparr>
   \<and> stored \<lparr>dir = Vec3 (1 / 1024) 0 0, magnitude = 1 / 1024\<rparr>
   \<and> fsub (1 / 1024) (65535 / 2) = - (65535 / 2)
   \<and> linearInterpolate \<lparr>dir = Vec3 (65535 / 2) 0 0, magnitude = 65535 / 2\<rparr>
        \<lparr>dir = Vec3 (1 / 1024) 0 0, magnitude = 1 / 1024\<rparr> 1
      = \<lparr>dir = Vec3 0 0 0, magnitude = 0\<rparr>"
proof -
  have s0: "stored \<lparr>dir = Vec3 (65535 / 2) 0 0, magnitude = 65535 / 2\<rparr>"
    by (simp add: stored_def consistent_def glm_length_x is_binary32_def binary32_halves)
  have s1: "stored \<lparr>dir = Vec3 (1 / 1024) 0 0, magnitude = 1 / 1024\<rparr>"
    by (simp add: stored_def consistent_def glm_length_x is_binary32_def binary32_halves)
  have d: "fsub (1 / 1024) (65535 / 2) = - (65535 / 2)"
    unfolding fsub_def by (rule binary32_tie_to_even_down)
  have "linearInterpolate \<lparr>dir = Vec3 (65535 / 2) 0 0, magnitude = 65535 / 2\<rparr>
        \<lparr>dir = Vec3 (1 / 1024) 0 0, magnitude = 1 / 1024\<rparr> 1
      = \<lparr>dir = Vec3 0 0 0, magnitude = 0\<rparr>"
    by (simp add: linearInterpolate_def Let_def vec3_add_def vec3_scale_def vec3_sub_def d
        fmul_def fadd_def binary32_halves glm_length_def)
      (simp add: fsub_def)
  with s0 s1 d show ?thesis by simp
qed

text \<open>
  Claim C3 says that a nearest-neighbour query at a coordinate with every component in
  \<open>[0, dim)\<close> reads inside the array. The source does not do so: a component in
  \<open>[dim - 1/2, dim)\<close> passes the range check and is rounded up to \<open>dim\<close>. In the 3 x 3 x 3
  sample volume the query at \<open>(2.5, 2.5, 2.5)\<close> passes the check, is rounded to
  \<open>(3, 3, 3)\<close> and reads index 39 of an array of 27 voxels.
\<close>

theorem nearest_neighbour_reads_out_of_bounds:
  "GradientVolume_ctor NearestNeighbour example_volume = Inr (example_gv NearestNeighbour)
   \<and> \<not> out_of_range (example_gv NearestNeighbour) (Vec3 (5/2) (5/2) (5/2))
   \<and> roundToPositiveInt (5/2) = 3
   \<and> voxel_index (m_dim (example_gv NearestNeighbour)) 3 3 3 = 39
   \<and> length (m_data (example_gv NearestNeighbour)) = 27
   \<and> getGradientInterpolate (example_gv NearestNeighbour) (Vec3 (5/2) (5/2) (5/2)) = None"
proof -
  have r: "roundToPositiveInt (5/2) = 3"
    by (simp add: roundToPositiveInt_def float_to_int_def fadd_def)
  have o: "\<not> out_of_range (example_gv NearestNeighbour) (Vec3 (5/2) (5/2) (5/2))"
    by (simp add: out_of_range_def example_gv_def)
  have i: "voxel_index (m_dim (example_gv NearestNeighbour)) 3 3 3 = 39"
    by (simp add: voxel_index_def example_gv_def)
  have l: "length (m_data (example_gv NearestNeighbour)) = 27"
    by (simp add: example_gv_def example_data_def)
  have "getGradient (example_gv NearestNeighbour) 3 3 3 = None"
    by (simp add: getGradient_def voxel_index_def example_data_def)
  then have "getGradientInterpolate (example_gv NearestNeighbour) (Vec3 (5/2) (5/2) (5/2)) = None"
    using o by (simp add: getGradientInterpolate_def getGradientNearestNeighbor_cases r example_gv_def)
  then show ?thesis using r o i l example_ctor_gv by simp
qed

text \<open>
  Claim C4, as amended. For every volume with dimensions at least 1 on each axis and fewer
  than \<open>2^31\<close> voxels the constructor returns a gradient volume whose array is not empty,
  in which \<open>minMagnitude() \<le> m \<le> maxMagnitude()\<close> for the magnitude \<open>m\<close> of every stored voxel
  (the untouched boundary zeros included), and both extrema are magnitudes of voxels of the
  array.
\<close>

theorem extrema_bound_stored_magnitudes:
  assumes "1 \<le> ix (dims volume)" "1 \<le> iy (dims volume)" "1 \<le> iz (dims volume)"
    and "ix (dims volume) * iy (dims volume) * iz (dims volume) < 2 ^ 31"
  shows "\<exists>gv. GradientVolume_ctor mode volume = Inr gv
     \<and> m_data gv \<noteq> []
     \<and> (\<forall>g \<in> set (m_data gv). minMagnitude gv \<le> magnitude g \<and> magnitude g \<le> maxMagnitude gv)
     \<and> (\<exists>g \<in> set (m_data gv). magnitude g = minMagnitude gv)
     \<and> (\<exists>g \<in> set (m_data gv). magnitude g = maxMagnitude gv)"
proof -
  obtain gv where gv: "GradientVolume_ctor mode volume = Inr gv"
    using ctor_total [OF assms] by blast
  note f = ctor_fields [OF gv]
  have "m_data gv \<noteq> []"
    using f(3) by (auto simp: computeMinMagnitude_def min_element_def)
  then show ?thesis
    using gv computeMinMagnitude_bounds [OF f(3)] computeMaxMagnitude_bounds [OF f(4)]
    by (auto simp: minMagnitude_def maxMagnitude_def)
qed

text \<open>In the sample volume the extrema are 0 and 1, and they bound the magnitude of the
  interior voxel.\<close>

theorem extrema_bound_stored_magnitudes_witness:
  "\<exists>gv. GradientVolume_ctor Linear example_volume = Inr gv
     \<and> m_data gv = example_data \<and> minMagnitude gv = 0 \<and> maxMagnitude gv = 1
     \<and> minMagnitude gv \<le> magnitude (m_data gv ! 13) \<and> magnitude (m_data gv ! 13) \<le> maxMagnitude gv"
proof -
  have d: "1 \<le> ix (dims example_volume)" "1 \<le> iy (dims example_volume)"
    "1 \<le> iz (dims example_volume)"
    "ix (dims example_volume) * iy (dims example_volume) * iz (dims example_volume) < 2 ^ 31"
    by (simp_all add: example_volume_def)
  from extrema_bound_stored_magnitudes [OF d, of Linear] obtain gv where
    gv: "GradientVolume_ctor Linear example_volume = Inr gv"
    and b: "\<forall>g \<in> set (m_data gv). minMagnitude gv \<le> magnitude g \<and> magnitude g \<le> maxMagnitude gv"
    by blast
  have data: "m_data gv = example_data" "minMagnitude gv = 0" "maxMagnitude gv = 1"
    using gv by (auto simp: example_ctor minMagnitude_def maxMagnitude_def)
  have "m_data gv ! 13 \<in> set (m_data gv)"
    unfolding data by (rule nth_mem) (simp add: example_data_def)
  with b gv data show ?thesis by blast
qed

text \<open>
  The claim as stated, for every volume with at least one voxel, fails where the count
  does not fit an \<^verbatim>\<open>int\<close>: the volume of dimensions \<open>(65536, 65536, 1)\<close> has \<open>2^32\<close> voxels,
  and its construction ends in the overflow of \<open>65536 * 65536\<close>, with no extrema (a target
  that wraps the product gets the count 0, an empty array, and scans that dereference the
  past-the-end iterator).
\<close>

theorem extrema_count_overflow_counterexample:
  "GradientVolume_ctor NearestNeighbour \<lparr>dims = IVec3 65536 65536 1, getVoxel = (\<lambda>x y z. 0)\<rparr>
     = Inl SignedOverflow
   \<and> (65536 * 65536 * 1 :: int) mod 2 ^ 32 = 0
   \<and> computeMinMagnitude (replicate 0 zero_voxel) = Inl EndIteratorDereferenced
   \<and> computeMaxMagnitude (replicate 0 zero_voxel) = Inl EndIteratorDereferenced"
  by (simp add: GradientVolume_ctor_def computeGradientVolume_def mul_int_def int32_def
      computeMinMagnitude_def computeMaxMagnitude_def min_element_def max_element_def)



text \<open>
  Claim C6 says that the nearest-neighbour query, in range, reads the voxel at
  \<open>\<lfloor>v + 1/2\<rfloor>\<close> on each axis. The source adds \<^verbatim>\<open>0.5f\<close> in binary32 and truncates the rounded
  sum. Below one half the last binary32 number is \<open>1/2 - 2^-25\<close>; its sum with one half,
  \<open>1 - 2^-25\<close>, lies halfway between two binary32 numbers and is rounded to 1. In the sample
  volume the query at \<open>(1/2 - 2^-25, 1, 1)\<close> therefore reads the voxel \<open>(1, 1, 1)\<close>, of
  direction \<open>(1, 0, 0)\<close>, where the voxel at \<open>\<lfloor>v + 1/2\<rfloor>\<close>, the nearest one, is the zero voxel
  \<open>(0, 1, 1)\<close>.
\<close>

theorem nearest_neighbour_rounds_the_sum:
  "GradientVolume_ctor NearestNeighbour example_volume = Inr (example_gv NearestNeighbour)
   \<and> \<not> out_of_range (example_gv NearestNeighbour) (Vec3 (1 / 2 - 1 / 2 ^ 25) 1 1)
   \<and> is_binary32 (1 / 2 - 1 / 2 ^ 25)
   \<and> roundToPositiveInt (1 / 2 - 1 / 2 ^ 25) = 1
   \<and> \<lfloor>(1 / 2 - 1 / 2 ^ 25) + 1 / 2 :: real\<rfloor> = 0
   \<and> getGradientInterpolate (example_gv NearestNeighbour) (Vec3 (1 / 2 - 1 / 2 ^ 25) 1 1)
       = Some \<lparr>dir = Vec3 1 0 0, magnitude = 1\<rparr>
   \<and> getGradient (example_gv NearestNeighbour) 0 1 1 = Some \<lparr>dir = Vec3 0 0 0, magnitude = 0\<rparr>"
proof -
  have o: "\<not> out_of_range (example_gv NearestNeighbour) (Vec3 (1 / 2 - 1 / 2 ^ 25) 1 1)"
    by (simp add: out_of_range_def example_gv_def)
  have b: "is_binary32 (1 / 2 - 1 / 2 ^ 25)"
    using binary32_exact [of 16777215 "- 25"] by (simp add: is_binary32_def power_int_minus)
  have r: "roundToPositiveInt (1 / 2 - 1 / 2 ^ 25) = 1"
    using binary32_tie_to_even_up by (simp add: roundToPositiveInt_def fadd_def float_to_int_def)
  have r1: "roundToPositiveInt 1 = 1"
    by (simp add: roundToPositiveInt_def fadd_def float_to_int_def binary32_halves)
  have f: "\<lfloor>(1 / 2 - 1 / 2 ^ 25) + 1 / 2 :: real\<rfloor> = 0"
    by (simp add: floor_eq_iff)
  have "getGradientNearestNeighbor (example_gv NearestNeighbour) (Vec3 (1 / 2 - 1 / 2 ^ 25) 1 1)
      = getGradient (example_gv NearestNeighbour) 1 1 1"
    unfolding nearest_neighbour_in_range [OF o] r r1 ..
  then have q: "getGradientInterpolate (example_gv NearestNeighbour) (Vec3 (1 / 2 - 1 / 2 ^ 25) 1 1)
       = Some \<lparr>dir = Vec3 1 0 0, magnitude = 1\<rparr>"
    by (simp only: getGradientInterpolate_def example_gv_sel InterpolationMode.case
        example_getGradient)
  note z = example_getGradient(2) [of NearestNeighbour]
  show ?thesis using example_ctor_gv o b r f q z by simp
qed

text \<open>
  Claim C7. In Linear mode, on a gradient volume built by the constructor: where a
  component of \<open>coord - 1\<close> is below 0 or a component of \<open>coord + 1\<close> is at least the
  dimension of its axis, the query returns the zero voxel; everywhere else each of the eight
  corners (floor or ceiling on each axis) is a coordinate of the volume, its index is inside
  the array, \<^verbatim>\<open>getGradient\<close> reads that element, and the query returns a voxel.
\<close>

theorem linear_margin_zero_and_corners_in_bounds:
  assumes "GradientVolume_ctor mode volume = Inr gv"
  shows "(outside_margin gv coord \<longrightarrow>
            getGradientInterpolate (gv\<lparr>interpolationMode := Linear\<rparr>) coord
              = Some \<lparr>dir = Vec3 0 0 0, magnitude = 0\<rparr>)
       \<and> (\<not> outside_margin gv coord \<longrightarrow>
            (\<forall>x \<in> {\<lfloor>vx coord\<rfloor>, \<lceil>vx coord\<rceil>}. \<forall>y \<in> {\<lfloor>vy coord\<rfloor>, \<lceil>vy coord\<rceil>}.
               \<forall>z \<in> {\<lfloor>vz coord\<rfloor>, \<lceil>vz coord\<rceil>}.
                 in_volume (m_dim gv) x y z
                 \<and> 0 \<le> voxel_index (m_dim gv) x y z
                 \<and> voxel_index (m_dim gv) x y z < int (length (m_data gv))
                 \<and> getGradient gv x y z = Some (m_data gv ! nat (voxel_index (m_dim gv) x y z)))
            \<and> (\<exists>g. getGradientInterpolate (gv\<lparr>interpolationMode := Linear\<rparr>) coord = Some g))"
proof (intro conjI impI)
  assume "outside_margin gv coord"
  then show "getGradientInterpolate (gv\<lparr>interpolationMode := Linear\<rparr>) coord
              = Some \<lparr>dir = Vec3 0 0 0, magnitude = 0\<rparr>"
    by (simp add: getGradientInterpolate_def getGradientLinearInterpolate_outside
        zero_voxel_def zero_vec3_def)
next
  assume inside: "\<not> outside_margin gv coord"
  show "\<forall>x \<in> {\<lfloor>vx coord\<rfloor>, \<lceil>vx coord\<rceil>}. \<forall>y \<in> {\<lfloor>vy coord\<rfloor>, \<lceil>vy coord\<rceil>}.
               \<forall>z \<in> {\<lfloor>vz coord\<rfloor>, \<lceil>vz coord\<rceil>}.
                 in_volume (m_dim gv) x y z
                 \<and> 0 \<le> voxel_index (m_dim gv) x y z
                 \<and> voxel_index (m_dim gv) x y z < int (length (m_data gv))
                 \<and> getGradient gv x y z = Some (m_data gv ! nat (voxel_index (m_dim gv) x y z))"
  proof (intro ballI)
    fix x y z
    assume "x \<in> {\<lfloor>vx coord\<rfloor>, \<lceil>vx coord\<rceil>}" "y \<in> {\<lfloor>vy coord\<rfloor>, \<lceil>vy coord\<rceil>}"
      "z \<in> {\<lfloor>vz coord\<rfloor>, \<lceil>vz coord\<rceil>}"
    then have v: "in_volume (m_dim gv) x y z"
      using margin_corners [OF inside, of x y z] by simp
    have "0 \<le> voxel_index (m_dim gv) x y z"
      using v by (simp add: in_volume_def voxel_index_bounds)
    moreover have "voxel_index (m_dim gv) x y z < int (length (m_data gv))"
      using getGradient_in_volume(2) [OF assms v] by simp
    ultimately show "in_volume (m_dim gv) x y z
                 \<and> 0 \<le> voxel_index (m_dim gv) x y z
                 \<and> voxel_index (m_dim gv) x y z < int (length (m_data gv))
                 \<and> getGradient gv x y z = Some (m_data gv ! nat (voxel_index (m_dim gv) x y z))"
      using v getGradient_in_volume(1) [OF assms v] by simp
  qed
  show "\<exists>g. getGradientInterpolate (gv\<lparr>interpolationMode := Linear\<rparr>) coord = Some g"
    using getGradientLinearInterpolate_inside [OF assms inside]
    by (auto simp: getGradientInterpolate_def)
qed

text \<open>A coordinate outside the margin of the sample volume and the one inside it.\<close>

theorem linear_margin_zero_and_corners_in_bounds_witness:
  "outside_margin (example_gv Linear) (Vec3 (1/2) 1 1)
   \<and> getGradientInterpolate (example_gv Linear) (Vec3 (1/2) 1 1)
       = Some \<lparr>dir = Vec3 0 0 0, magnitude = 0\<rparr>
   \<and> \<not> outside_margin (example_gv Linear) (Vec3 1 1 1)
   \<and> getGradient (example_gv Linear) 1 1 1 = Some (m_data (example_gv Linear) ! 13)
   \<and> (\<exists>g. getGradientInterpolate (example_gv Linear) (Vec3 1 1 1) = Some g)"
proof -
  have o: "outside_margin (example_gv Linear) (Vec3 (1/2) 1 1)"
    by (simp add: outside_margin_def example_gv_def)
  have i: "\<not> outside_margin (example_gv Linear) (Vec3 1 1 1)"
    by (simp add: outside_margin_def example_gv_def)
  note t = linear_margin_zero_and_corners_in_bounds [OF example_ctor_gv, of Linear]
  have "getGradientInterpolate (example_gv Linear) (Vec3 (1/2) 1 1)
       = Some \<lparr>dir = Vec3 0 0 0, magnitude = 0\<rparr>"
    using t [of "Vec3 (1/2) 1 1"] o by (simp add: example_gv_mode)
  moreover have "getGradient (example_gv Linear) 1 1 1 = Some (m_data (example_gv Linear) ! 13)"
    using t [of "Vec3 1 1 1"] i by (simp add: example_gv_def voxel_index_def)
  moreover have "\<exists>g. getGradientInterpolate (example_gv Linear) (Vec3 1 1 1) = Some g"
    using t [of "Vec3 1 1 1"] i by (simp add: example_gv_mode)
  ultimately show ?thesis using o i by simp
qed

text \<open>
  Claim C8, as amended. The minimum scan and the maximum scan return a value exactly when
  the gradient array is not empty. The source has no case for the empty array: there each
  scan dereferences the past-the-end iterator.
\<close>

theorem extrema_scan_defined_iff_nonempty:
  "((\<exists>lo. computeMinMagnitude data = Inr lo) \<longleftrightarrow> data \<noteq> [])
   \<and> ((\<exists>hi. computeMaxMagnitude data = Inr hi) \<longleftrightarrow> data \<noteq> [])"
  using computeMinMagnitude_defined [of data] computeMaxMagnitude_defined [of data]
  by blast

text \<open>
  The claim as stated (the scan does not fail on an empty array) is false: on the volume
  of dimensions \<open>(0, 0, 0)\<close> the array is empty and both scans, and with them the
  constructor, dereference the past-the-end iterator.
\<close>

theorem extrema_scan_empty_counterexample:
  "computeMinMagnitude [] = Inl EndIteratorDereferenced
   \<and> computeMaxMagnitude [] = Inl EndIteratorDereferenced
   \<and> computeGradientVolume \<lparr>dims = IVec3 0 0 0, getVoxel = (\<lambda>x y z. 0)\<rparr> = Inr []
   \<and> GradientVolume_ctor NearestNeighbour \<lparr>dims = IVec3 0 0 0, getVoxel = (\<lambda>x y z. 0)\<rparr>
       = Inl EndIteratorDereferenced"
  by (simp add: computeMinMagnitude_def computeMaxMagnitude_def min_element_def max_element_def
      GradientVolume_ctor_def computeGradientVolume_def mul_int_def int32_def loop_z.simps)

text \<open>
  Claim C9. For every gradient volume and every coordinate the query in Cubic mode returns
  what the query in Linear mode returns.
\<close>

theorem cubic_mode_is_linear_mode:
  "getGradientInterpolate (gv\<lparr>interpolationMode := Cubic\<rparr>) coord =
   getGradientInterpolate (gv\<lparr>interpolationMode := Linear\<rparr>) coord"
  by (simp add: getGradientInterpolate_def)

text \<open>
  Claim C10 says that the magnitude of every voxel that \<^verbatim>\<open>getGradientInterpolate\<close> returns
  is the norm of its direction, the lookups in range included. The nearest-neighbour query
  does not keep to the array (claim C3): in the sample volume the coordinate
  \<open>(1, 1, 2.5)\<close> is in range, is rounded to \<open>(1, 1, 3)\<close>, and the query returns what lies at
  index 31 of an array of 27 voxels, which is no stored voxel and no blend of stored voxels.
\<close>

theorem nearest_neighbour_returns_no_voxel_of_the_array:
  "GradientVolume_ctor NearestNeighbour example_volume = Inr (example_gv NearestNeighbour)
   \<and> \<not> out_of_range (example_gv NearestNeighbour) (Vec3 1 1 (5/2))
   \<and> voxel_index (m_dim (example_gv NearestNeighbour)) 1 1 3 = 31
   \<and> length (m_data (example_gv NearestNeighbour)) = 27
   \<and> getGradientInterpolate (example_gv NearestNeighbour) (Vec3 1 1 (5/2)) = None"
proof -
  have r: "roundToPositiveInt (5/2) = 3" "roundToPositiveInt 1 = 1"
    by (simp_all add: roundToPositiveInt_def float_to_int_def fadd_def binary32_halves)
  have o: "\<not> out_of_range (example_gv NearestNeighbour) (Vec3 1 1 (5/2))"
    by (simp add: out_of_range_def example_gv_def)
  have i: "voxel_index (m_dim (example_gv NearestNeighbour)) 1 1 3 = 31"
    by (simp add: voxel_index_def example_gv_def)
  have l: "length (m_data (example_gv NearestNeighbour)) = 27"
    by (simp add: example_gv_def example_data_def)
  have "getGradient (example_gv NearestNeighbour) 1 1 3 = None"
    by (simp add: getGradient_def voxel_index_def example_data_def)
  then have "getGradientInterpolate (example_gv NearestNeighbour) (Vec3 1 1 (5/2)) = None"
    using o by (simp add: getGradientInterpolate_def getGradientNearestNeighbor_cases r example_gv_def)
  then show ?thesis using o i l example_ctor_gv by simp
qed

end
